theory Spec2Isabelle
  imports Complex_Main "HOL-Library.Log_Nat"
begin

section \<open>Tenant Risk Scoring API: a shallow embedding of \<open>model/app/main.py\<close>\<close>

text \<open>
  The service has three operations: \<open>lifespan\<close> (run once at startup, it fills
  \<open>app.state.model\<close>), \<open>health_check\<close> (\<open>GET /\<close>) and \<open>predict_risk_score\<close>
  (\<open>POST /predict/score\<close>). Python exceptions are values of a sum type, the process-wide
  \<open>app.state\<close> is passed explicitly, and every call of the artifact's \<open>predict_proba\<close>
  is recorded in a trace, so that "the artifact was not consulted" is a statement about
  the model.
\<close>

subsection \<open>Python values: exceptions, floats, indexing\<close>

text \<open>
  A Python exception: the name of its class and \<open>str(e)\<close>. \<open>PyExn\<close> is an instance of
  a class that derives from \<open>Exception\<close>; \<open>PyBaseExn\<close> is an instance of a class that
  derives from \<open>BaseException\<close> and not from \<open>Exception\<close> (\<open>SystemExit\<close>,
  \<open>KeyboardInterrupt\<close>, \<open>GeneratorExit\<close>).
\<close>

datatype pyexn =
    PyExn (exn_class: string) (exn_str: string)
  | PyBaseExn (exn_class: string) (exn_str: string)

text \<open>\<open>isinstance(e, Exception)\<close>: what the clause \<open>except Exception\<close> tests.\<close>

definition isinstance_Exception :: "pyexn \<Rightarrow> bool" where
  "isinstance_Exception e = (case e of PyExn _ _ \<Rightarrow> True | PyBaseExn _ _ \<Rightarrow> False)"

text \<open>
  What a call of a route or of \<open>lifespan\<close> can raise: FastAPI's \<open>HTTPException\<close>
  (turned into an HTTP error response by the framework) or any other exception, which
  leaves the function uncaught.
\<close>

datatype raised = HTTPException (status_code: nat) (detail: string) | Uncaught pyexn

text \<open>
  A Python \<open>float\<close> (IEEE 754 binary64): a finite value, held as the rational it denotes,
  an infinity or NaN. The sign of zero is dropped: \<open>int\<close> does not see it.
\<close>

datatype pyfloat = Finite rat | PosInf | NegInf | NaN

definition pow2 :: "int \<Rightarrow> rat" where
  "pow2 k = (if 0 \<le> k then 2 ^ nat k else 1 / 2 ^ nat (- k))"

text \<open>\<open>exponent_of x\<close> is \<open>\<lfloor>log\<^sub>2 \<bar>x\<bar>\<rfloor>\<close> for \<open>x \<noteq> 0\<close>, computed on integers.\<close>

definition exponent_of :: "rat \<Rightarrow> int" where
  "exponent_of x =
     (let a = \<bar>x\<bar>
      in if 1 \<le> a then int (floorlog 2 (nat \<lfloor>a\<rfloor>)) - 1
         else - int (floorlog 2 (nat \<lceil>1 / a\<rceil> - 1)))"

definition round_half_even :: "rat \<Rightarrow> int" where
  "round_half_even q =
     (let f = \<lfloor>q\<rfloor>; r = q - of_int f
      in if r < 1 / 2 then f
         else if 1 / 2 < r then f + 1
         else if even f then f else f + 1)"

text \<open>
  Rounding of an exact result to binary64, to nearest with ties to even: 53 significant
  bits, the least exponent is \<open>-1022\<close> (below it the spacing stays \<open>2\<^sup>-\<^sup>1\<^sup>0\<^sup>7\<^sup>4\<close>), and a
  rounded magnitude of \<open>2\<^sup>1\<^sup>0\<^sup>2\<^sup>4\<close> or more overflows to an infinity.
\<close>

definition round64 :: "rat \<Rightarrow> pyfloat" where
  "round64 x =
     (if x = 0 then Finite 0
      else let e = max (exponent_of x) (- 1022);
               ulp = pow2 (e - 52);
               r = of_int (round_half_even (x / ulp)) * ulp
           in if pow2 1024 \<le> \<bar>r\<bar> then (if 0 < x then PosInf else NegInf)
              else Finite r)"

definition float_sign :: "pyfloat \<Rightarrow> int" where
  "float_sign x =
     (case x of
        Finite r \<Rightarrow> (if r < 0 then - 1 else if 0 < r then 1 else 0)
      | PosInf \<Rightarrow> 1
      | NegInf \<Rightarrow> - 1
      | NaN \<Rightarrow> 0)"

text \<open>The product of two floats, \<open>x * y\<close>.\<close>

fun float_mul :: "pyfloat \<Rightarrow> pyfloat \<Rightarrow> pyfloat" where
  "float_mul NaN _ = NaN"
| "float_mul _ NaN = NaN"
| "float_mul (Finite a) (Finite b) = round64 (a * b)"
| "float_mul x y =
     (let s = float_sign x * float_sign y
      in if s = 0 then NaN else if 0 < s then PosInf else NegInf)"

text \<open>
  \<open>int(x)\<close> on a float truncates toward zero; it raises \<open>ValueError\<close> on NaN and
  \<open>OverflowError\<close> on an infinity.
\<close>

definition trunc_toward_zero :: "rat \<Rightarrow> int" where
  "trunc_toward_zero r = (if 0 \<le> r then \<lfloor>r\<rfloor> else \<lceil>r\<rceil>)"

fun int_of_float :: "pyfloat \<Rightarrow> pyexn + int" where
  "int_of_float (Finite r) = Inr (trunc_toward_zero r)"
| "int_of_float NaN = Inl (PyExn ''ValueError'' ''cannot convert float NaN to integer'')"
| "int_of_float _ =
     Inl (PyExn ''OverflowError'' ''cannot convert float infinity to integer'')"

text \<open>Decimal text of a natural number, as \<open>str\<close> prints it.\<close>

fun show_nat :: "nat \<Rightarrow> string" where
  "show_nat n =
     (if n < 10 then [char_of (48 + n)]
      else show_nat (n div 10) @ [char_of (48 + n mod 10)])"

text \<open>
  \<open>a[i]\<close> on an array read along its first axis, with \<open>i \<ge> 0\<close>: out of range it raises
  \<open>IndexError\<close> with NumPy's message (the artifact is a scikit-learn classifier, whose
  \<open>predict_proba\<close> returns a two-dimensional array of float64).
\<close>

definition getitem :: "'a list \<Rightarrow> nat \<Rightarrow> pyexn + 'a" where
  "getitem xs i =
     (if i < length xs then Inr (xs ! i)
      else Inl (PyExn ''IndexError''
                 (''index '' @ show_nat i @ '' is out of bounds for axis 0 with size ''
                    @ show_nat (length xs))))"

subsection \<open>The data model\<close>

text \<open>
  Modelled from the spec: \<open>schemas.TenantScoreRequest\<close> is imported by \<open>main.py\<close> and is
  not among the sources; the request body has the two integer fields \<open>missedPeriods\<close> and
  \<open>totalDisputes\<close>.
\<close>

record TenantScoreRequest =
  missedPeriods :: int
  totalDisputes :: int

text \<open>A data frame: its rows, each a list of column name and value, in column order.\<close>

type_synonym dataframe = "(string \<times> int) list list"

text \<open>
  The artifact that \<open>joblib.load\<close> returns is an opaque Python object. The service uses
  two things of it: its truth value (\<open>not app.state.model\<close>; an object is falsy when its
  \<open>__bool__\<close> returns \<open>False\<close> or its \<open>__len__\<close> returns 0) and \<open>predict_proba\<close>, which returns
  an array of rows of probabilities or raises.
\<close>

record artifact =
  truthy :: bool
  predict_proba :: "dataframe \<Rightarrow> pyexn + pyfloat list list"

text \<open>\<open>app.state\<close>: the model handle, \<open>None\<close> or the loaded artifact.\<close>

record app_state =
  model :: "artifact option"

record ScoreResponse =
  trust_score :: int
  risk_category :: string
  recommendation :: string

record HealthResponse =
  status :: string
  model_loaded :: bool

text \<open>
  What one call of \<open>predict_risk_score\<close> leaves behind: what it returned or raised, the
  inputs on which it called \<open>predict_proba\<close> (in order), and \<open>app.state\<close> afterwards.
\<close>

record outcome =
  response :: "raised + ScoreResponse"
  calls :: "dataframe list"
  state_after :: app_state

text \<open>
  The world that \<open>lifespan\<close> reads at startup: which paths exist, and what \<open>joblib.load\<close>
  does on a path: it raises, or it returns the unpickled object, which is \<open>None\<close> when
  the file holds a pickled \<open>None\<close>.
\<close>

record environment =
  path_exists :: "string \<Rightarrow> bool"
  joblib_load :: "string \<Rightarrow> pyexn + artifact option"

subsection \<open>The model loader: \<open>lifespan\<close>\<close>

definition MODEL_PATH :: string where
  "MODEL_PATH = ''model/models/tenant_risk_model.pkl''"

text \<open>The two messages start with U+2705 and U+274C, here in UTF-8.\<close>

definition msg_loaded :: string where
  "msg_loaded = [CHR 0xE2, CHR 0x9C, CHR 0x85] @ '' Production Model Loaded Successfully.''"

definition msg_not_found :: string where
  "msg_not_found =
     [CHR 0xE2, CHR 0x9D, CHR 0x8C] @ '' CRITICAL: Model file not found at '' @ MODEL_PATH"

text \<open>
  The startup half of \<open>lifespan\<close> (the code before \<open>yield\<close>): the exception that left it,
  or the \<open>app.state\<close> it set; and the lines it printed. There is no \<open>try\<close> in it, so
  what \<open>joblib.load\<close> raises leaves \<open>lifespan\<close>; what it returns is assigned to
  \<open>app.state.model\<close> as it is.
\<close>

definition lifespan :: "environment \<Rightarrow> (raised + app_state) \<times> string list" where
  "lifespan env =
     (if path_exists env MODEL_PATH then
        (case joblib_load env MODEL_PATH of
           Inl e \<Rightarrow> (Inl (Uncaught e), [])
         | Inr loaded \<Rightarrow> (Inr \<lparr>model = loaded\<rparr>, [msg_loaded]))
      else (Inr \<lparr>model = None\<rparr>, [msg_not_found]))"

subsection \<open>The routes\<close>

definition health_check :: "app_state \<Rightarrow> HealthResponse" where
  "health_check st = \<lparr>status = ''Online'', model_loaded = (model st \<noteq> None)\<rparr>"

text \<open>Python's truth value of \<open>app.state.model\<close>: \<open>None\<close> is falsy.\<close>

definition is_truthy :: "artifact option \<Rightarrow> bool" where
  "is_truthy h = (case h of None \<Rightarrow> False | Some a \<Rightarrow> truthy a)"

text \<open>Step 4 of the handler: the \<open>if\<close>/\<open>elif\<close>/\<open>else\<close> on \<open>final_score\<close>.\<close>

definition categorize :: "int \<Rightarrow> string \<times> string" where
  "categorize final_score =
     (if final_score > 75 then (''Safe'', ''Approve'')
      else if final_score < 40 then (''Risky'', ''Review Manually'')
      else (''Moderate'', ''Review Manually''))"

definition build_input :: "TenantScoreRequest \<Rightarrow> dataframe" where
  "build_input data =
     [[(''missedPeriods'', missedPeriods data), (''totalDisputes'', totalDisputes data)]]"

text \<open>
  The body of the \<open>try\<close> block: the exception raised in it or the response it returns,
  and the calls of \<open>predict_proba\<close> it made. The block reads \<open>app.state.model\<close>
  again; on \<open>None\<close> the attribute access would raise \<open>AttributeError\<close>.
\<close>

definition try_body ::
  "app_state \<Rightarrow> TenantScoreRequest \<Rightarrow> (pyexn + ScoreResponse) \<times> dataframe list" where
  "try_body st data =
     (let model_input = build_input data
      in case model st of
           None \<Rightarrow>
             (Inl (PyExn ''AttributeError''
                     (CHR 0x27 # ''NoneType'' @ CHR 0x27 # '' object has no attribute ''
                        @ CHR 0x27 # ''predict_proba'' @ [CHR 0x27])), [])
         | Some m \<Rightarrow>
             ((case predict_proba m model_input of
                 Inl e \<Rightarrow> Inl e
               | Inr probs \<Rightarrow>
                   (case getitem probs 0 of
                      Inl e \<Rightarrow> Inl e
                    | Inr row \<Rightarrow>
                        (case getitem row 1 of
                           Inl e \<Rightarrow> Inl e
                         | Inr trust_probability \<Rightarrow>
                             (case int_of_float (float_mul trust_probability (Finite 100)) of
                                Inl e \<Rightarrow> Inl e
                              | Inr final_score \<Rightarrow>
                                  Inr \<lparr>trust_score = final_score,
                                       risk_category = fst (categorize final_score),
                                       recommendation = snd (categorize final_score)\<rparr>)))),
              [model_input]))"

text \<open>
  \<open>POST /predict/score\<close>. The handler never assigns to \<open>app.state\<close>, so the state
  it leaves is the one it was given. The clause \<open>except Exception\<close> catches the
  exceptions whose class derives from \<open>Exception\<close>; any other exception raised in the
  \<open>try\<close> block leaves the handler.
\<close>

definition predict_risk_score :: "app_state \<Rightarrow> TenantScoreRequest \<Rightarrow> outcome" where
  "predict_risk_score st data =
     (if \<not> is_truthy (model st) then
        \<lparr>response = Inl (HTTPException 503 ''AI Model is not loaded on server.''),
         calls = [], state_after = st\<rparr>
      else if missedPeriods data = 0 \<and> totalDisputes data = 0 then
        \<lparr>response = Inr \<lparr>trust_score = 100, risk_category = ''Safe'',
                          recommendation = ''Approve''\<rparr>,
         calls = [], state_after = st\<rparr>
      else
        (case try_body st data of
           (Inl e, cs) \<Rightarrow>
             (if isinstance_Exception e then
                \<lparr>response = Inl (HTTPException 500 (''Prediction Error: '' @ exn_str e)),
                 calls = cs, state_after = st\<rparr>
              else \<lparr>response = Inl (Uncaught e), calls = cs, state_after = st\<rparr>)
         | (Inr r, cs) \<Rightarrow> \<lparr>response = Inr r, calls = cs, state_after = st\<rparr>))"

subsection \<open>The shared artifact as a mutable object\<close>

text \<open>
  \<open>app.state.model\<close> is a reference to one Python object shared by all requests, and
  \<open>predict_proba\<close> is a method of it: a call may read and change the object's own state
  \<open>'s\<close>. \<open>snapshot ob s\<close> is the artifact as a request sees it while the object is in
  state \<open>s\<close>.
\<close>

record 's py_object =
  obj_truthy :: "'s \<Rightarrow> bool"
  obj_predict_proba :: "'s \<Rightarrow> dataframe \<Rightarrow> (pyexn + pyfloat list list) \<times> 's"

definition snapshot :: "'s py_object \<Rightarrow> 's \<Rightarrow> artifact" where
  "snapshot ob s =
     \<lparr>truthy = obj_truthy ob s, predict_proba = (\<lambda>x. fst (obj_predict_proba ob s x))\<rparr>"

text \<open>
  One request served while the object is in state \<open>s\<close>: the outcome of the handler, and
  the state in which its calls of \<open>predict_proba\<close> leave the object (the handler calls it
  at most once, so every call it makes sees the state \<open>s\<close>).
\<close>

definition serve :: "'s py_object \<Rightarrow> 's \<Rightarrow> TenantScoreRequest \<Rightarrow> outcome \<times> 's" where
  "serve ob s data =
     (let out = predict_risk_score \<lparr>model = Some (snapshot ob s)\<rparr> data
      in (out, foldl (\<lambda>s' x. snd (obj_predict_proba ob s' x)) s (calls out)))"

subsection \<open>Concrete artifacts and environments\<close>

text \<open>
  Stand-ins for the pickled classifier, used to run the handler on concrete inputs:
  an artifact that answers every frame with the same rows, one that raises on inference,
  and an object that is loaded but falsy.
\<close>

definition constant_artifact :: "pyfloat list list \<Rightarrow> artifact" where
  "constant_artifact rows = \<lparr>truthy = True, predict_proba = (\<lambda>_. Inr rows)\<rparr>"

definition raising_artifact :: "pyexn \<Rightarrow> artifact" where
  "raising_artifact e = \<lparr>truthy = True, predict_proba = (\<lambda>_. Inl e)\<rparr>"

definition falsy_artifact :: artifact where
  "falsy_artifact =
     \<lparr>truthy = False, predict_proba = (\<lambda>_. Inr [[Finite (1 / 2), Finite (1 / 2)]])\<rparr>"


definition counting_object :: "nat py_object" where
  "counting_object =
     \<lparr>obj_truthy = (\<lambda>_. True),
      obj_predict_proba =
        (\<lambda>n _. (if n = 0 then Inr [[Finite (1 / 4), Finite (3 / 4)]]
                 else Inr [[Finite (3 / 4), Finite (1 / 4)]], Suc n))\<rparr>"

text \<open>
  Startup worlds: no file; a file that does not unpickle; a file holding an artifact; a
  file holding a pickled \<open>None\<close>.
\<close>

definition env_absent :: environment where
  "env_absent =
     \<lparr>path_exists = (\<lambda>_. False),
      joblib_load = (\<lambda>_. Inl (PyExn ''FileNotFoundError'' ''No such file or directory''))\<rparr>"

definition env_corrupt :: environment where
  "env_corrupt =
     \<lparr>path_exists = (\<lambda>p. p = MODEL_PATH),
      joblib_load = (\<lambda>_. Inl (PyExn ''UnpicklingError'' ''pickle data was truncated''))\<rparr>"

definition env_with :: "artifact \<Rightarrow> environment" where
  "env_with a =
     \<lparr>path_exists = (\<lambda>p. p = MODEL_PATH), joblib_load = (\<lambda>_. Inr (Some a))\<rparr>"

definition env_pickled_none :: environment where
  "env_pickled_none =
     \<lparr>path_exists = (\<lambda>p. p = MODEL_PATH), joblib_load = (\<lambda>_. Inr None)\<rparr>"

text \<open>A probability: a finite float between 0 and 1.\<close>

definition is_probability :: "pyfloat \<Rightarrow> bool" where
  "is_probability v = (case v of Finite p \<Rightarrow> 0 \<le> p \<and> p \<le> 1 | _ \<Rightarrow> False)"

section \<open>Properties\<close>

subsection \<open>Rounding to binary64 keeps a product within 0 and 100\<close>

lemma pow2_pos: "0 < pow2 k"
  by (simp add: pow2_def)

lemma round_half_even_nonneg: "0 \<le> q \<Longrightarrow> 0 \<le> round_half_even q"
  by (simp add: round_half_even_def Let_def)

lemma round_half_even_le_int:
  assumes "q \<le> of_int N"
  shows "round_half_even q \<le> N"
proof -
  have fl: "\<lfloor>q\<rfloor> \<le> N" using assms by (simp add: floor_le_iff)
  show ?thesis
  proof (cases "\<lfloor>q\<rfloor> = N")
    case True
    then have "q - of_int \<lfloor>q\<rfloor> \<le> 0" using assms by simp
    then show ?thesis using True by (simp add: round_half_even_def Let_def)
  next
    case False
    then have "\<lfloor>q\<rfloor> + 1 \<le> N" using fl by simp
    then show ?thesis by (simp add: round_half_even_def Let_def)
  qed
qed

lemma exponent_of_le_6:
  assumes "0 < x" "x \<le> 100"
  shows "exponent_of x \<le> 6"
proof (cases "1 \<le> x")
  case True
  have "\<lfloor>x\<rfloor> < 128" using assms by (simp add: floor_less_iff)
  then have "nat \<lfloor>x\<rfloor> < 128" by linarith
  then have "floorlog 2 (nat \<lfloor>x\<rfloor>) \<le> 7" by (simp add: floorlog_le_iff)
  then show ?thesis using True assms by (simp add: exponent_of_def)
next
  case False
  then show ?thesis using assms by (simp add: exponent_of_def)
qed

text \<open>
  An exact value between 0 and 100 rounds to a finite float between 0 and 100: the spacing
  of the floats there divides 100, so the nearest float cannot lie beyond it.
\<close>

lemma round64_unit_range:
  assumes "0 \<le> x" "x \<le> 100"
  shows "\<exists>r. round64 x = Finite r \<and> 0 \<le> r \<and> r \<le> 100"
proof (cases "x = 0")
  case True
  then show ?thesis by (simp add: round64_def)
next
  case False
  then have pos: "0 < x" using assms by simp
  define e where "e = max (exponent_of x) (- 1022)"
  define n where "n = nat (52 - e)"
  define ulp where "ulp = pow2 (e - 52)"
  define r where "r = of_int (round_half_even (x / ulp)) * ulp"
  have "e \<le> 6" using exponent_of_le_6 [OF pos assms(2)] by (simp add: e_def)
  then have ulp_eq: "ulp = 1 / 2 ^ n" by (simp add: ulp_def pow2_def n_def)
  have ulp_pos: "0 < ulp" by (simp add: ulp_def pow2_pos)
  have "x / ulp \<le> of_int (100 * 2 ^ n)" using assms by (simp add: ulp_eq)
  then have le: "round_half_even (x / ulp) \<le> 100 * 2 ^ n" by (rule round_half_even_le_int)
  have ge: "0 \<le> round_half_even (x / ulp)"
    using assms ulp_pos by (intro round_half_even_nonneg) simp
  have r0: "0 \<le> r" using ge ulp_pos by (simp add: r_def)
  have "of_int (round_half_even (x / ulp)) \<le> (of_int (100 * 2 ^ n) :: rat)"
    using le by (simp only: of_int_le_iff)
  then have "r \<le> of_int (100 * 2 ^ n) * ulp"
    unfolding r_def using ulp_pos by (intro mult_right_mono) simp_all
  then have r100: "r \<le> 100" by (simp add: ulp_eq)
  have "\<bar>r\<bar> < pow2 1024"
  proof -
    have "(100::rat) < 2 ^ 7" by simp
    also have "\<dots> \<le> 2 ^ 1024" by (rule power_increasing) simp_all
    finally show ?thesis using r0 r100 by (simp add: pow2_def)
  qed
  then have "round64 x = Finite r"
    using False by (simp add: round64_def Let_def e_def ulp_def r_def)
  then show ?thesis using r0 r100 by blast
qed

lemma probability_times_100:
  assumes "0 \<le> p" "p \<le> 1"
  shows "\<exists>x. float_mul (Finite p) (Finite 100) = Finite x \<and> 0 \<le> x \<and> x \<le> 100"
proof -
  have "0 \<le> p * 100" "p * 100 \<le> 100" using assms by simp_all
  then show ?thesis using round64_unit_range [of "p * 100"] by simp
qed

subsection \<open>The handler, path by path\<close>


lemma response_categorized:
  assumes "response (predict_risk_score st data) = Inr r"
  shows "(risk_category r, recommendation r) = categorize (trust_score r)"
  using assms
  by (auto simp: predict_risk_score_def try_body_def categorize_def Let_def
           split: if_splits option.splits sum.splits prod.splits)

lemma model_path_score:
  assumes "model st = Some m" "truthy m"
    and "\<not> (missedPeriods data = 0 \<and> totalDisputes data = 0)"
    and "predict_proba m (build_input data) = Inr ((prob_bad # Finite p # others) # rest)"
    and "float_mul (Finite p) (Finite 100) = Finite x"
  shows "predict_risk_score st data =
           \<lparr>response = Inr \<lparr>trust_score = trunc_toward_zero x,
                             risk_category = fst (categorize (trunc_toward_zero x)),
                             recommendation = snd (categorize (trunc_toward_zero x))\<rparr>,
            calls = [build_input data], state_after = st\<rparr>"
  using assms
  by (simp add: predict_risk_score_def is_truthy_def try_body_def getitem_def Let_def)

lemma fast_path_when_truthy:
  assumes "model st = Some m" "truthy m" "missedPeriods data = 0" "totalDisputes data = 0"
  shows "predict_risk_score st data =
           \<lparr>response = Inr \<lparr>trust_score = 100, risk_category = ''Safe'',
                             recommendation = ''Approve''\<rparr>,
            calls = [], state_after = st\<rparr>"
  using assms by (simp add: predict_risk_score_def is_truthy_def)

lemma try_body_score_in_range:
  assumes "model st = Some m"
    and "predict_proba m (build_input data) = Inr rows"
    and "\<forall>row\<in>set rows. \<forall>v\<in>set row. is_probability v"
    and "fst (try_body st data) = Inr r"
  shows "0 \<le> trust_score r \<and> trust_score r \<le> 100"
proof -
  from assms(1,2,4) obtain row v where row: "getitem rows 0 = Inr row"
    and v: "getitem row 1 = Inr v"
    and r: "int_of_float (float_mul v (Finite 100)) = Inr (trust_score r)"
    by (auto simp: try_body_def Let_def split: sum.splits)
  from row have "row \<in> set rows" by (auto simp: getitem_def split: if_splits)
  moreover from v have "v \<in> set row" by (auto simp: getitem_def split: if_splits)
  ultimately have "is_probability v" using assms(3) by blast
  then obtain p where p: "v = Finite p" "0 \<le> p" "p \<le> 1"
    by (cases v) (simp_all add: is_probability_def)
  from probability_times_100 [OF p(2,3)] obtain x
    where x: "float_mul (Finite p) (Finite 100) = Finite x" "0 \<le> x" "x \<le> 100" by blast
  from r p(1) x(1) have "trust_score r = trunc_toward_zero x" by simp
  moreover have "0 \<le> \<lfloor>x\<rfloor>" "\<lfloor>x\<rfloor> \<le> 100" using x(2,3) by (simp_all add: floor_le_iff)
  ultimately show ?thesis using x(2) by (simp add: trunc_toward_zero_def)
qed

text \<open>
  The product is the binary64 product, not the exact one. For the float nearest to 0.3
  (which lies below 0.3) the exact product lies below 30, and the float product is 30.
\<close>

lemma float_product_not_exact_product:
  "float_mul (Finite (5404319552844595 / 2 ^ 54)) (Finite 100) = Finite 30
   \<and> \<lfloor>5404319552844595 / 2 ^ 54 * 100 :: rat\<rfloor> = 29"
proof
  show "float_mul (Finite (5404319552844595 / 2 ^ 54)) (Finite 100) = Finite 30"
    by code_simp
  show "\<lfloor>5404319552844595 / 2 ^ 54 * 100 :: rat\<rfloor> = 29"
    by (simp add: floor_unique)
qed

section \<open>The claims\<close>

text \<open>
  Claim C1. Every response that the handler returns pairs its score with the category and
  the recommendation of the table: above 75 Safe and Approve, below 40 Risky and Review
  Manually, from 40 to 75 Moderate and Review Manually. This covers the model path, where
  the score is computed from the artifact's answer (the fast path's fixed response agrees
  with the table too). The examples after the theorem run the model path at the four
  boundary scores 75, 76, 40 and 39, with the floats nearest to 0.75, 0.76, 0.4 and 0.39.
\<close>

theorem categorization_follows_table:
  assumes "response (predict_risk_score st data) = Inr r"
  shows "(75 < trust_score r \<longrightarrow> risk_category r = ''Safe'' \<and> recommendation r = ''Approve'')
       \<and> (trust_score r < 40 \<longrightarrow>
            risk_category r = ''Risky'' \<and> recommendation r = ''Review Manually'')
       \<and> (40 \<le> trust_score r \<and> trust_score r \<le> 75 \<longrightarrow>
            risk_category r = ''Moderate'' \<and> recommendation r = ''Review Manually'')"
  using response_categorized [OF assms] by (auto simp: categorize_def split: if_splits)

theorem categorization_follows_table_witness:
  "response (predict_risk_score \<lparr>model = Some (constant_artifact [[Finite (1 / 4), Finite (3 / 4)]])\<rparr>
              \<lparr>missedPeriods = 2, totalDisputes = 1\<rparr>)
     = Inr \<lparr>trust_score = 75, risk_category = ''Moderate'',
            recommendation = ''Review Manually''\<rparr>
   \<and> response (predict_risk_score
        \<lparr>model = Some (constant_artifact
           [[Finite (1080863910568919 / 2 ^ 52), Finite (3422735716801577 / 2 ^ 52)]])\<rparr>
        \<lparr>missedPeriods = 2, totalDisputes = 1\<rparr>)
     = Inr \<lparr>trust_score = 76, risk_category = ''Safe'', recommendation = ''Approve''\<rparr>
   \<and> response (predict_risk_score
        \<lparr>model = Some (constant_artifact
           [[Finite (5404319552844595 / 2 ^ 53), Finite (3602879701896397 / 2 ^ 53)]])\<rparr>
        \<lparr>missedPeriods = 2, totalDisputes = 1\<rparr>)
     = Inr \<lparr>trust_score = 40, risk_category = ''Moderate'',
            recommendation = ''Review Manually''\<rparr>
   \<and> response (predict_risk_score
        \<lparr>model = Some (constant_artifact
           [[Finite (5494391545392005 / 2 ^ 53), Finite (3512807709348987 / 2 ^ 53)]])\<rparr>
        \<lparr>missedPeriods = 2, totalDisputes = 1\<rparr>)
     = Inr \<lparr>trust_score = 39, risk_category = ''Risky'',
            recommendation = ''Review Manually''\<rparr>"
  (is "response ?o75 = _ \<and> response ?o76 = _ \<and> response ?o40 = _ \<and> response ?o39 = _")
proof -
  have m75: "float_mul (Finite (3 / 4)) (Finite 100) = Finite 75" by code_simp
  have m76: "float_mul (Finite (3422735716801577 / 2 ^ 52)) (Finite 100) = Finite 76"
    by code_simp
  have m40: "float_mul (Finite (3602879701896397 / 2 ^ 53)) (Finite 100) = Finite 40"
    by code_simp
  have m39: "float_mul (Finite (3512807709348987 / 2 ^ 53)) (Finite 100) = Finite 39"
    by code_simp
  have s75: "\<exists>r. response ?o75 = Inr r \<and> trust_score r = 75"
    by (simp add: model_path_score [OF _ _ _ _ m75] constant_artifact_def
          trunc_toward_zero_def)
  have s76: "\<exists>r. response ?o76 = Inr r \<and> trust_score r = 76"
    by (simp add: model_path_score [OF _ _ _ _ m76] constant_artifact_def
          trunc_toward_zero_def)
  have s40: "\<exists>r. response ?o40 = Inr r \<and> trust_score r = 40"
    by (simp add: model_path_score [OF _ _ _ _ m40] constant_artifact_def
          trunc_toward_zero_def)
  have s39: "\<exists>r. response ?o39 = Inr r \<and> trust_score r = 39"
    by (simp add: model_path_score [OF _ _ _ _ m39] constant_artifact_def
          trunc_toward_zero_def)
  from s75 obtain r75 where r75: "response ?o75 = Inr r75" "trust_score r75 = 75" by blast
  from s76 obtain r76 where r76: "response ?o76 = Inr r76" "trust_score r76 = 76" by blast
  from s40 obtain r40 where r40: "response ?o40 = Inr r40" "trust_score r40 = 40" by blast
  from s39 obtain r39 where r39: "response ?o39 = Inr r39" "trust_score r39 = 39" by blast
  have "r75 = \<lparr>trust_score = 75, risk_category = ''Moderate'',
                recommendation = ''Review Manually''\<rparr>"
    using categorization_follows_table [OF r75(1)] r75(2) by (cases r75) simp
  moreover have "r76 = \<lparr>trust_score = 76, risk_category = ''Safe'',
                recommendation = ''Approve''\<rparr>"
    using categorization_follows_table [OF r76(1)] r76(2) by (cases r76) simp
  moreover have "r40 = \<lparr>trust_score = 40, risk_category = ''Moderate'',
                recommendation = ''Review Manually''\<rparr>"
    using categorization_follows_table [OF r40(1)] r40(2) by (cases r40) simp
  moreover have "r39 = \<lparr>trust_score = 39, risk_category = ''Risky'',
                recommendation = ''Review Manually''\<rparr>"
    using categorization_follows_table [OF r39(1)] r39(2) by (cases r39) simp
  ultimately show ?thesis using r75(1) r76(1) r40(1) r39(1) by simp
qed

text \<open>
  Claim C2. On the model path (the handle is truthy and the two inputs are not both zero)
  the handler reads \<open>probs[0][1]\<close>, the second entry of the first row that
  \<open>predict_proba\<close> returned, multiplies it by 100 and applies \<open>int\<close>. For a probability
  between 0 and 1 the product is a finite float \<open>x\<close>, \<open>int(x)\<close> is its floor, and that
  floor is the \<open>trust_score\<close> of the response. The example: the float nearest to 0.999
  gives 99, not the rounded 100.
\<close>

theorem trust_score_is_floor_of_product:
  assumes "model st = Some m" "truthy m"
    and "\<not> (missedPeriods data = 0 \<and> totalDisputes data = 0)"
    and "predict_proba m (build_input data) = Inr ((prob_bad # Finite p # others) # rest)"
    and "0 \<le> p" "p \<le> 1"
  shows "\<exists>x. float_mul (Finite p) (Finite 100) = Finite x
           \<and> int_of_float (Finite x) = Inr \<lfloor>x\<rfloor>
           \<and> (\<exists>r. response (predict_risk_score st data) = Inr r \<and> trust_score r = \<lfloor>x\<rfloor>)"
proof -
  from probability_times_100 [OF assms(5,6)] obtain x
    where x: "float_mul (Finite p) (Finite 100) = Finite x" "0 \<le> x" by blast
  have t: "trunc_toward_zero x = \<lfloor>x\<rfloor>" using x(2) by (simp add: trunc_toward_zero_def)
  have "\<exists>r. response (predict_risk_score st data) = Inr r \<and> trust_score r = \<lfloor>x\<rfloor>"
    by (simp add: model_path_score [OF assms(1-4) x(1)] t)
  then show ?thesis using x(1) t by simp
qed

theorem trust_score_is_floor_of_product_witness:
  "\<exists>r. response (predict_risk_score
            \<lparr>model = Some (constant_artifact
               [[Finite (1152921504606847 / 2 ^ 60), Finite (8998192055486251 / 2 ^ 53)]])\<rparr>
            \<lparr>missedPeriods = 0, totalDisputes = 1\<rparr>) = Inr r
       \<and> trust_score r = 99"
proof -
  let ?p = "8998192055486251 / 2 ^ 53 :: rat"
  let ?m = "constant_artifact [[Finite (1152921504606847 / 2 ^ 60), Finite ?p]]"
  let ?data = "\<lparr>missedPeriods = 0, totalDisputes = 1\<rparr>"
  have prod: "float_mul (Finite ?p) (Finite 100) = Finite (3514918771674317 / 2 ^ 45)"
    by code_simp
  have fl: "\<lfloor>3514918771674317 / 2 ^ 45 :: rat\<rfloor> = 99" by (simp add: floor_unique)
  have "\<exists>x. float_mul (Finite ?p) (Finite 100) = Finite x
           \<and> int_of_float (Finite x) = Inr \<lfloor>x\<rfloor>
           \<and> (\<exists>r. response (predict_risk_score \<lparr>model = Some ?m\<rparr> ?data) = Inr r
                  \<and> trust_score r = \<lfloor>x\<rfloor>)"
    by (rule trust_score_is_floor_of_product
          [where m = ?m and prob_bad = "Finite (1152921504606847 / 2 ^ 60)"
             and others = "[]" and rest = "[]"])
       (simp_all add: constant_artifact_def)
  then obtain x r where x: "float_mul (Finite ?p) (Finite 100) = Finite x"
    and r: "response (predict_risk_score \<lparr>model = Some ?m\<rparr> ?data) = Inr r"
           "trust_score r = \<lfloor>x\<rfloor>"
    by blast
  from x prod have "Finite x = Finite (3514918771674317 / 2 ^ 45)" by (simp only:)
  then have "x = 3514918771674317 / 2 ^ 45" by (simp only: pyfloat.inject)
  with r(2) fl have "trust_score r = 99" by (simp only:)
  with r(1) show ?thesis by blast
qed

text \<open>
  Claim C3. The claim: with the model loaded, the request with \<open>missedPeriods = 0\<close> and
  \<open>totalDisputes = 0\<close> gets the fixed response 100, Safe, Approve, and the artifact is not
  consulted. The handler's guard is \<open>not app.state.model\<close>, the truth value of the handle,
  where \<open>health_check\<close> tests \<open>is not None\<close>. With a loaded artifact that is falsy the
  handler answers 503 "AI Model is not loaded on server." while \<open>health_check\<close> reports
  the model as loaded. (For a truthy handle the fast path is \<open>fast_path_when_truthy\<close>.)
\<close>

theorem fast_path_refused_for_falsy_artifact:
  "predict_risk_score \<lparr>model = Some falsy_artifact\<rparr> \<lparr>missedPeriods = 0, totalDisputes = 0\<rparr>
     = \<lparr>response = Inl (HTTPException 503 ''AI Model is not loaded on server.''),
        calls = [], state_after = \<lparr>model = Some falsy_artifact\<rparr>\<rparr>
   \<and> model_loaded (health_check \<lparr>model = Some falsy_artifact\<rparr>)"
  by (simp add: predict_risk_score_def is_truthy_def falsy_artifact_def health_check_def)

text \<open>
  Claim C4. The check for an unavailable model comes first: when the handle is \<open>None\<close>,
  every request, the one with both inputs zero included, raises the 503
  \<open>HTTPException\<close>, and \<open>predict_proba\<close> is not called.
\<close>

theorem unavailable_check_precedes_fast_path:
  assumes "model st = None"
  shows "predict_risk_score st data =
           \<lparr>response = Inl (HTTPException 503 ''AI Model is not loaded on server.''),
            calls = [], state_after = st\<rparr>"
  using assms by (simp add: predict_risk_score_def is_truthy_def)

theorem unavailable_check_precedes_fast_path_witness:
  "model \<lparr>model = None\<rparr> = None
   \<and> predict_risk_score \<lparr>model = None\<rparr> \<lparr>missedPeriods = 0, totalDisputes = 0\<rparr> =
        \<lparr>response = Inl (HTTPException 503 ''AI Model is not loaded on server.''),
         calls = [], state_after = \<lparr>model = None\<rparr>\<rparr>"
  using unavailable_check_precedes_fast_path
          [of "\<lparr>model = None\<rparr>" "\<lparr>missedPeriods = 0, totalDisputes = 0\<rparr>"]
  by simp

text \<open>
  Claim C5. The claim: no exception leaves the loader, every failure to find or to
  unpickle the file becomes the handle \<open>None\<close> with a diagnostic. The loader has no
  \<open>try\<close>: it guards \<open>joblib.load\<close> by \<open>os.path.exists\<close> only. When the file exists and
  does not unpickle, the exception of \<open>joblib.load\<close> leaves \<open>lifespan\<close> and nothing is
  printed.
\<close>

theorem lifespan_lets_load_failure_escape:
  "lifespan env_corrupt = (Inl (Uncaught (PyExn ''UnpicklingError'' ''pickle data was truncated'')), [])"
  by (simp add: lifespan_def env_corrupt_def)

text \<open>
  Claim C5, as the code has it. A missing file raises nothing: the handle becomes
  \<open>None\<close> and the "CRITICAL: Model file not found" line is printed. A file that unpickles
  gives the handle (the unpickled object, as it is) and the success line. An exception leaves \<open>lifespan\<close> only when the
  file exists and \<open>joblib.load\<close> raises, and it is that exception.
\<close>

theorem lifespan_guards_missing_file_only:
  "(\<not> path_exists env MODEL_PATH \<longrightarrow> lifespan env = (Inr \<lparr>model = None\<rparr>, [msg_not_found]))
   \<and> (\<forall>m. path_exists env MODEL_PATH \<and> joblib_load env MODEL_PATH = Inr m \<longrightarrow>
          lifespan env = (Inr \<lparr>model = m\<rparr>, [msg_loaded]))
   \<and> (\<forall>x. fst (lifespan env) = Inl x \<longrightarrow>
          path_exists env MODEL_PATH \<and> (\<exists>e. joblib_load env MODEL_PATH = Inl e \<and> x = Uncaught e))"
  by (auto simp: lifespan_def split: sum.splits if_splits)

theorem lifespan_guards_missing_file_only_witness:
  "\<not> path_exists env_absent MODEL_PATH
   \<and> lifespan env_absent = (Inr \<lparr>model = None\<rparr>, [msg_not_found])
   \<and> path_exists (env_with falsy_artifact) MODEL_PATH
   \<and> joblib_load (env_with falsy_artifact) MODEL_PATH = Inr (Some falsy_artifact)
   \<and> lifespan (env_with falsy_artifact) = (Inr \<lparr>model = Some falsy_artifact\<rparr>, [msg_loaded])
   \<and> fst (lifespan env_corrupt) = Inl (Uncaught (PyExn ''UnpicklingError'' ''pickle data was truncated''))
   \<and> path_exists env_corrupt MODEL_PATH"
  using lifespan_guards_missing_file_only [of env_absent]
        lifespan_guards_missing_file_only [of "env_with falsy_artifact"]
        lifespan_guards_missing_file_only [of env_corrupt]
  by (simp add: env_absent_def env_with_def env_corrupt_def lifespan_def)

text \<open>
  Claim C6. Whenever the handler returns a response (fast path or model path), and the
  rows that \<open>predict_proba\<close> returns for the request hold probabilities (finite floats
  between 0 and 1), the \<open>trust_score\<close> is an integer from 0 to 100.
\<close>

theorem trust_score_in_range:
  assumes "response (predict_risk_score st data) = Inr r"
    and "\<forall>m rows. model st = Some m \<and> predict_proba m (build_input data) = Inr rows \<longrightarrow>
           (\<forall>row\<in>set rows. \<forall>v\<in>set row. is_probability v)"
  shows "0 \<le> trust_score r \<and> trust_score r \<le> 100"
proof (cases "is_truthy (model st) \<and> \<not> (missedPeriods data = 0 \<and> totalDisputes data = 0)")
  case False
  with assms(1) show ?thesis
    by (auto simp: predict_risk_score_def split: if_splits)
next
  case True
  then obtain m where m: "model st = Some m"
    by (auto simp: is_truthy_def split: option.splits)
  from True assms(1) have tb: "fst (try_body st data) = Inr r"
    by (auto simp: predict_risk_score_def split: prod.splits sum.splits if_splits)
  then obtain rows where rows: "predict_proba m (build_input data) = Inr rows"
    using m by (auto simp: try_body_def Let_def split: sum.splits)
  with assms(2) m have "\<forall>row\<in>set rows. \<forall>v\<in>set row. is_probability v" by blast
  from try_body_score_in_range [OF m rows this tb] show ?thesis .
qed

theorem trust_score_in_range_witness:
  "response (predict_risk_score
      \<lparr>model = Some (constant_artifact
         [[Finite (3242591731706757 / 2 ^ 54), Finite (7385903388887613 / 2 ^ 53)]])\<rparr>
      \<lparr>missedPeriods = 2, totalDisputes = 1\<rparr>)
     = Inr \<lparr>trust_score = 82, risk_category = ''Safe'', recommendation = ''Approve''\<rparr>
   \<and> (0::int) \<le> 82 \<and> (82::int) \<le> 100"
proof -
  let ?rows = "[[Finite (3242591731706757 / 2 ^ 54), Finite (7385903388887613 / 2 ^ 53)]]"
  let ?st = "\<lparr>model = Some (constant_artifact ?rows)\<rparr>"
  let ?data = "\<lparr>missedPeriods = 2, totalDisputes = 1\<rparr>"
  let ?r = "\<lparr>trust_score = 82, risk_category = ''Safe'', recommendation = ''Approve''\<rparr>"
  have prod: "float_mul (Finite (7385903388887613 / 2 ^ 53)) (Finite 100) = Finite 82"
    by code_simp
  have resp: "response (predict_risk_score ?st ?data) = Inr ?r"
    by (simp add: model_path_score [OF _ _ _ _ prod] constant_artifact_def
          trunc_toward_zero_def categorize_def)
  have probs: "\<forall>m rows. model ?st = Some m \<and> predict_proba m (build_input ?data) = Inr rows \<longrightarrow>
           (\<forall>row\<in>set rows. \<forall>v\<in>set row. is_probability v)"
    by (auto simp: constant_artifact_def is_probability_def)
  from trust_score_in_range [OF resp probs] resp show ?thesis by simp
qed

text \<open>
  Claim C7. The claim: on the model path every exception raised in the \<open>try\<close> block is
  turned into the \<open>HTTPException\<close> with status 500, and none leaves the handler. The
  clause is \<open>except Exception\<close> (line 83): an exception whose class does not derive from
  \<open>Exception\<close>, such as the \<open>SystemExit\<close> of a \<open>sys.exit\<close> inside the artifact, is not
  caught and leaves the handler.
\<close>

theorem handler_lets_system_exit_escape:
  "response (predict_risk_score
      \<lparr>model = Some (raising_artifact (PyBaseExn ''SystemExit'' ''1''))\<rparr>
      \<lparr>missedPeriods = 5, totalDisputes = 3\<rparr>)
     = Inl (Uncaught (PyBaseExn ''SystemExit'' ''1''))"
  by (simp add: predict_risk_score_def is_truthy_def try_body_def raising_artifact_def
        isinstance_Exception_def Let_def)

text \<open>
  Claim C7, as the code has it. On the model path every exception raised in the \<open>try\<close>
  block whose class derives from \<open>Exception\<close>, the one \<open>predict_proba\<close> raises in
  particular, is turned into the \<open>HTTPException\<close> with status 500 and detail
  "Prediction Error: " followed by \<open>str(e)\<close>. An exception leaves the handler only when
  it was raised in the \<open>try\<close> block and its class does not derive from \<open>Exception\<close>.
  \<open>predict_proba\<close> is called exactly once (no retry).
\<close>

theorem exceptions_of_class_Exception_become_500:
  assumes "model st = Some m" "truthy m"
    and "\<not> (missedPeriods data = 0 \<and> totalDisputes data = 0)"
  shows "(\<forall>e. predict_proba m (build_input data) = Inl e \<and> isinstance_Exception e \<longrightarrow>
            response (predict_risk_score st data)
              = Inl (HTTPException 500 (''Prediction Error: '' @ exn_str e)))
       \<and> (\<forall>e. fst (try_body st data) = Inl e \<and> isinstance_Exception e \<longrightarrow>
            response (predict_risk_score st data)
              = Inl (HTTPException 500 (''Prediction Error: '' @ exn_str e)))
       \<and> (\<forall>e. response (predict_risk_score st data) = Inl (Uncaught e) \<longrightarrow>
            fst (try_body st data) = Inl e \<and> \<not> isinstance_Exception e)
       \<and> calls (predict_risk_score st data) = [build_input data]"
  using assms
  by (auto simp: predict_risk_score_def is_truthy_def try_body_def Let_def
           split: prod.splits sum.splits if_splits)

theorem exceptions_of_class_Exception_become_500_witness:
  "response (predict_risk_score
      \<lparr>model = Some (raising_artifact (PyExn ''ValueError'' ''Input X contains NaN.''))\<rparr>
      \<lparr>missedPeriods = 5, totalDisputes = 3\<rparr>)
     = Inl (HTTPException 500 ''Prediction Error: Input X contains NaN.'')
   \<and> calls (predict_risk_score
      \<lparr>model = Some (raising_artifact (PyExn ''ValueError'' ''Input X contains NaN.''))\<rparr>
      \<lparr>missedPeriods = 5, totalDisputes = 3\<rparr>)
     = [[[(''missedPeriods'', 5), (''totalDisputes'', 3)]]]
   \<and> response (predict_risk_score
      \<lparr>model = Some (constant_artifact [[Finite 1]])\<rparr>
      \<lparr>missedPeriods = 5, totalDisputes = 3\<rparr>)
     = Inl (HTTPException 500
         ''Prediction Error: index 1 is out of bounds for axis 0 with size 1'')
   \<and> fst (try_body \<lparr>model = Some (raising_artifact (PyBaseExn ''KeyboardInterrupt'' []))\<rparr>
             \<lparr>missedPeriods = 5, totalDisputes = 3\<rparr>)
     = Inl (PyBaseExn ''KeyboardInterrupt'' [])
   \<and> \<not> isinstance_Exception (PyBaseExn ''KeyboardInterrupt'' [])"
proof -
  let ?e = "PyExn ''ValueError'' ''Input X contains NaN.''"
  let ?k = "PyBaseExn ''KeyboardInterrupt'' []"
  let ?data = "\<lparr>missedPeriods = 5, totalDisputes = 3\<rparr>"
  have a: "model \<lparr>model = Some (raising_artifact ?e)\<rparr> = Some (raising_artifact ?e)"
    "truthy (raising_artifact ?e)"
    "\<not> (missedPeriods ?data = 0 \<and> totalDisputes ?data = 0)"
    "predict_proba (raising_artifact ?e) (build_input ?data) = Inl ?e"
    "isinstance_Exception ?e"
    by (simp_all add: raising_artifact_def isinstance_Exception_def)
  have b: "model \<lparr>model = Some (constant_artifact [[Finite 1]])\<rparr>
             = Some (constant_artifact [[Finite 1]])"
    "truthy (constant_artifact [[Finite 1]])"
    by (simp_all add: constant_artifact_def)
  have c: "fst (try_body \<lparr>model = Some (constant_artifact [[Finite 1]])\<rparr> ?data)
       = Inl (PyExn ''IndexError'' ''index 1 is out of bounds for axis 0 with size 1'')"
    by code_simp
  have c': "isinstance_Exception
              (PyExn ''IndexError'' ''index 1 is out of bounds for axis 0 with size 1'')"
    by (simp add: isinstance_Exception_def)
  have k: "model \<lparr>model = Some (raising_artifact ?k)\<rparr> = Some (raising_artifact ?k)"
    "truthy (raising_artifact ?k)"
    "response (predict_risk_score \<lparr>model = Some (raising_artifact ?k)\<rparr> ?data)
       = Inl (Uncaught ?k)"
    by (simp_all add: raising_artifact_def predict_risk_score_def is_truthy_def
          try_body_def isinstance_Exception_def Let_def)
  note A = exceptions_of_class_Exception_become_500 [OF a(1,2,3)]
  note B = exceptions_of_class_Exception_become_500 [OF b(1,2) a(3)]
  note K = exceptions_of_class_Exception_become_500 [OF k(1,2) a(3)]
  have r1: "response (predict_risk_score \<lparr>model = Some (raising_artifact ?e)\<rparr> ?data)
              = Inl (HTTPException 500 (''Prediction Error: '' @ exn_str ?e))"
    using A a(4,5) by blast
  have r2: "calls (predict_risk_score \<lparr>model = Some (raising_artifact ?e)\<rparr> ?data)
              = [build_input ?data]"
    using A by blast
  have r3: "response (predict_risk_score
                \<lparr>model = Some (constant_artifact [[Finite 1]])\<rparr> ?data)
              = Inl (HTTPException 500 (''Prediction Error: '' @ exn_str
                  (PyExn ''IndexError'' ''index 1 is out of bounds for axis 0 with size 1'')))"
    using B c c' by blast
  have r4: "fst (try_body \<lparr>model = Some (raising_artifact ?k)\<rparr> ?data) = Inl ?k
             \<and> \<not> isinstance_Exception ?k"
    using K k(3) by blast
  show ?thesis
    using r1 r2 r3 r4 by (simp add: build_input_def)
qed

text \<open>
  Claim C8. The handler tests the truth value of the handle, \<open>health_check\<close> compares
  it with \<open>None\<close>: for an artifact that is loaded and falsy the handler raises the 503
  while \<open>health_check\<close> reports \<open>model_loaded: true\<close>.
\<close>

theorem availability_views_disagree_on_falsy_artifact:
  assumes "model st = Some m" "\<not> truthy m"
  shows "response (predict_risk_score st data)
           = Inl (HTTPException 503 ''AI Model is not loaded on server.'')
       \<and> health_check st = \<lparr>status = ''Online'', model_loaded = True\<rparr>"
  using assms by (simp add: predict_risk_score_def is_truthy_def health_check_def)

theorem availability_views_disagree_on_falsy_artifact_witness:
  "model \<lparr>model = Some falsy_artifact\<rparr> = Some falsy_artifact \<and> \<not> truthy falsy_artifact
   \<and> response (predict_risk_score \<lparr>model = Some falsy_artifact\<rparr>
                 \<lparr>missedPeriods = 2, totalDisputes = 1\<rparr>)
        = Inl (HTTPException 503 ''AI Model is not loaded on server.'')
   \<and> health_check \<lparr>model = Some falsy_artifact\<rparr>
        = \<lparr>status = ''Online'', model_loaded = True\<rparr>"
proof -
  have a: "model \<lparr>model = Some falsy_artifact\<rparr> = Some falsy_artifact"
    "\<not> truthy falsy_artifact"
    by (simp_all add: falsy_artifact_def)
  from availability_views_disagree_on_falsy_artifact
         [OF a, of "\<lparr>missedPeriods = 2, totalDisputes = 1\<rparr>"] a
  show ?thesis by simp
qed

text \<open>
  Claim C9. \<open>health_check\<close> has no raising path: it returns \<open>status: "Online"\<close> and
  \<open>model_loaded\<close>, which is true exactly when the handle is not \<open>None\<close>. For the state
  that a completed startup leaves, the handle is not \<open>None\<close> exactly when the artifact
  file existed and \<open>joblib.load\<close> returned an object; if the file was absent, the startup
  completes and \<open>model_loaded\<close> is false. (A file holding a pickled \<open>None\<close> also leaves the
  handle \<open>None\<close>, after the success line: \<open>model_loaded\<close> is false there too.)
\<close>

theorem health_check_reflects_loader:
  "(\<forall>st out. lifespan env = (Inr st, out) \<longrightarrow>
      health_check st = \<lparr>status = ''Online'', model_loaded = (model st \<noteq> None)\<rparr>
      \<and> (model st \<noteq> None \<longleftrightarrow>
           path_exists env MODEL_PATH \<and> (\<exists>a. joblib_load env MODEL_PATH = Inr (Some a))))
   \<and> (\<not> path_exists env MODEL_PATH \<longrightarrow>
        (\<exists>st out. lifespan env = (Inr st, out)
           \<and> health_check st = \<lparr>status = ''Online'', model_loaded = False\<rparr>))"
  by (auto simp: health_check_def lifespan_def split: sum.splits if_splits)

theorem health_check_reflects_loader_witness:
  "\<not> path_exists env_absent MODEL_PATH
   \<and> lifespan env_absent = (Inr \<lparr>model = None\<rparr>, [msg_not_found])
   \<and> health_check \<lparr>model = None\<rparr> = \<lparr>status = ''Online'', model_loaded = False\<rparr>
   \<and> lifespan (env_with (constant_artifact [])) =
        (Inr \<lparr>model = Some (constant_artifact [])\<rparr>, [msg_loaded])
   \<and> health_check \<lparr>model = Some (constant_artifact [])\<rparr>
        = \<lparr>status = ''Online'', model_loaded = True\<rparr>
   \<and> lifespan env_pickled_none = (Inr \<lparr>model = None\<rparr>, [msg_loaded])
   \<and> path_exists env_pickled_none MODEL_PATH"
proof -
  have a: "lifespan env_absent = (Inr \<lparr>model = None\<rparr>, [msg_not_found])"
    by (simp add: lifespan_def env_absent_def)
  have b: "lifespan (env_with (constant_artifact [])) =
        (Inr \<lparr>model = Some (constant_artifact [])\<rparr>, [msg_loaded])"
    by (simp add: lifespan_def env_with_def)
  have n: "lifespan env_pickled_none = (Inr \<lparr>model = None\<rparr>, [msg_loaded])"
    by (simp add: lifespan_def env_pickled_none_def)
  have c: "\<not> path_exists env_absent MODEL_PATH"
    "path_exists (env_with (constant_artifact [])) MODEL_PATH"
    "path_exists env_pickled_none MODEL_PATH"
    by (simp_all add: env_absent_def env_with_def env_pickled_none_def)
  from health_check_reflects_loader [of env_absent]
       health_check_reflects_loader [of "env_with (constant_artifact [])"]
       health_check_reflects_loader [of env_pickled_none]
       a b n c
  show ?thesis by simp
qed

text \<open>
  The embedding does not make the handler deterministic by itself: served twice against
  an object whose \<open>predict_proba\<close> changes the object, the same request gets two
  different responses.
\<close>

lemma counting_object_answers_differ:
  "response (fst (serve counting_object 0 \<lparr>missedPeriods = 2, totalDisputes = 1\<rparr>))
     = Inr \<lparr>trust_score = 75, risk_category = ''Moderate'',
            recommendation = ''Review Manually''\<rparr>
   \<and> snd (serve counting_object 0 \<lparr>missedPeriods = 2, totalDisputes = 1\<rparr>) = Suc 0
   \<and> response (fst (serve counting_object (Suc 0) \<lparr>missedPeriods = 2, totalDisputes = 1\<rparr>))
     = Inr \<lparr>trust_score = 25, risk_category = ''Risky'',
            recommendation = ''Review Manually''\<rparr>"
proof -
  have m75: "float_mul (Finite (3 / 4)) (Finite 100) = Finite 75" by code_simp
  have m25: "float_mul (Finite (1 / 4)) (Finite 100) = Finite 25" by code_simp
  have o0: "predict_risk_score \<lparr>model = Some (snapshot counting_object 0)\<rparr>
              \<lparr>missedPeriods = 2, totalDisputes = 1\<rparr>
            = \<lparr>response = Inr \<lparr>trust_score = 75, risk_category = ''Moderate'',
                               recommendation = ''Review Manually''\<rparr>,
               calls = [build_input \<lparr>missedPeriods = 2, totalDisputes = 1\<rparr>],
               state_after = \<lparr>model = Some (snapshot counting_object 0)\<rparr>\<rparr>"
    by (simp add: model_path_score [OF _ _ _ _ m75] snapshot_def counting_object_def
          trunc_toward_zero_def categorize_def)
  have o1: "predict_risk_score \<lparr>model = Some (snapshot counting_object (Suc 0))\<rparr>
              \<lparr>missedPeriods = 2, totalDisputes = 1\<rparr>
            = \<lparr>response = Inr \<lparr>trust_score = 25, risk_category = ''Risky'',
                               recommendation = ''Review Manually''\<rparr>,
               calls = [build_input \<lparr>missedPeriods = 2, totalDisputes = 1\<rparr>],
               state_after = \<lparr>model = Some (snapshot counting_object (Suc 0))\<rparr>\<rparr>"
    by (simp add: model_path_score [OF _ _ _ _ m25] snapshot_def counting_object_def
          trunc_toward_zero_def categorize_def)
  show ?thesis
    by (simp add: serve_def o0 o1 Let_def) (simp add: counting_object_def)
qed




end
